theory Spec2Isabelle
  imports Complex_Main
begin

section \<open>Data model (src/providers/base.ts)\<close>

text \<open>
  JavaScript strings are modelled as \<^typ>\<open>string\<close>: one \<^typ>\<open>char\<close> per code unit, for
  text whose code units are below 256. An optional field or argument (\<^verbatim>\<open>x?: T\<close>) is an
  \<^typ>\<open>'a option\<close>, with \<^term>\<open>None\<close> for \<^verbatim>\<open>undefined\<close>.
\<close>

datatype role = User | Assistant | System

record Message =
  role :: role
  content :: string

text \<open>
  A JavaScript number that is finite is represented by the rational it denotes (\<^verbatim>\<open>-0\<close> and
  \<^verbatim>\<open>0\<close> are both \<open>Num 0\<close>); \<open>NaN\<close> is kept apart because it is falsy. The two
  infinities are not represented.
\<close>

datatype number = Num rat | NaN

record Usage =
  promptTokens :: number
  completionTokens :: number
  totalTokens :: number

record ModelResponse =
  r_content :: string
  r_model :: string
  r_usage :: "Usage option"

record ModelConfig =
  apiKey :: string
  model :: "string option"
  maxTokens :: "number option"
  temperature :: "number option"
  baseURL :: "string option"

text \<open>
  An error that is thrown. \<open>Error msg\<close> is an \<^verbatim>\<open>Error\<close> whose message is \<open>msg\<close>.
  \<open>StreamError detail\<close> is the \<^verbatim>\<open>Error\<close> the \<^verbatim>\<open>catch\<close> of the DeepSeek adapter's
  \<^verbatim>\<open>streamChat\<close> makes: its message is a fixed prefix followed by \<open>m\<close> for
  \<open>detail = Some m\<close>, and by a fixed text for \<open>detail = None\<close>. Both fixed texts are written
  in the source with code units above 255, so they are not spelled out here.
\<close>

datatype error = Error string | StreamError "string option"

text \<open>
  The abstract method \<^verbatim>\<open>chat(messages, systemPrompt?)\<close> of a provider, as the caller sees
  it: it resolves with a response (\<open>Inr\<close>) or rejects with an error (\<open>Inl\<close>).
\<close>

type_synonym provider_chat = "Message list \<Rightarrow> string option \<Rightarrow> error + ModelResponse"

subsection \<open>Truthiness\<close>

text \<open>What \<^verbatim>\<open>a || b\<close> and \<^verbatim>\<open>if (a)\<close> test on an optional number and an optional string.\<close>

fun truthy_number :: "number option \<Rightarrow> bool" where
  "truthy_number None = False"
| "truthy_number (Some NaN) = False"
| "truthy_number (Some (Num q)) = (if q = 0 then False else True)"

fun truthy_string :: "string option \<Rightarrow> bool" where
  "truthy_string None = False"
| "truthy_string (Some s) = (if s = [] then False else True)"

text \<open>\<^verbatim>\<open>a || d\<close> for a default \<open>d\<close> that is itself a value.\<close>

definition number_or :: "number option \<Rightarrow> number \<Rightarrow> number" where
  "number_or a d = (if truthy_number a then the a else d)"

definition string_or :: "string option \<Rightarrow> string \<Rightarrow> string" where
  "string_or a d = (if truthy_string a then the a else d)"

subsection \<open>ModelProvider: constructor, getConfig and the default streamChat\<close>

record ModelProvider =
  p_apiKey :: string
  p_model :: string
  p_maxTokens :: number
  p_temperature :: number
  p_baseURL :: "string option"

text \<open>
  The constructor of the abstract class; the first argument is what the subclass's
  \<^verbatim>\<open>getDefaultModel()\<close> returns.
\<close>

definition ModelProvider_new :: "string \<Rightarrow> ModelConfig \<Rightarrow> ModelProvider" where
  "ModelProvider_new defaultModel config =
     \<lparr> p_apiKey = apiKey config,
       p_model = string_or (model config) defaultModel,
       p_maxTokens = number_or (maxTokens config) (Num 4096),
       p_temperature = number_or (temperature config) (Num (7 / 10)),
       p_baseURL = baseURL config \<rparr>"

record ConfigInfo =
  c_provider :: string
  c_model :: string
  c_maxTokens :: number
  c_temperature :: number

text \<open>\<^verbatim>\<open>getConfig()\<close>; the first argument is what \<^verbatim>\<open>getProviderName()\<close> returns.\<close>

definition getConfig :: "string \<Rightarrow> ModelProvider \<Rightarrow> ConfigInfo" where
  "getConfig providerName p =
     \<lparr> c_provider = providerName,
       c_model = p_model p,
       c_maxTokens = p_maxTokens p,
       c_temperature = p_temperature p \<rparr>"

text \<open>
  A generator run to its end: the values it yielded, in order, and the error it threw, if
  it ended by throwing.
\<close>

type_synonym 'a generated = "'a list \<times> error option"

text \<open>
  The base class's \<^verbatim>\<open>streamChat\<close>: await \<^verbatim>\<open>this.chat\<close> once and yield
  \<^verbatim>\<open>response.content\<close>. A rejection of \<^verbatim>\<open>chat\<close> is thrown before anything is yielded.
\<close>

definition streamChat :: "provider_chat \<Rightarrow> Message list \<Rightarrow> string option \<Rightarrow> string generated" where
  "streamChat chat messages systemPrompt =
     (case chat messages systemPrompt of
        Inl e \<Rightarrow> ([], Some e)
      | Inr response \<Rightarrow> ([r_content response], None))"

section \<open>Request building\<close>

text \<open>A message as it is sent: the role is the string of the union member.\<close>

record WireMessage =
  w_role :: string
  w_content :: string

fun role_string :: "role \<Rightarrow> string" where
  "role_string User = ''user''"
| "role_string Assistant = ''assistant''"
| "role_string System = ''system''"

definition to_wire :: "Message \<Rightarrow> WireMessage" where
  "to_wire msg = \<lparr> w_role = role_string (role msg), w_content = content msg \<rparr>"

subsection \<open>ClaudeProvider (src/providers/claude.ts)\<close>

definition Claude_getDefaultModel :: string where
  "Claude_getDefaultModel = ''claude-sonnet-4-5-20250929''"

definition Claude_getProviderName :: string where
  "Claude_getProviderName = ''Claude''"

definition ClaudeProvider_new :: "ModelConfig \<Rightarrow> ModelProvider" where
  "ClaudeProvider_new config = ModelProvider_new Claude_getDefaultModel config"

text \<open>\<^verbatim>\<open>messages.filter(msg => msg.role !== 'system').map(...)\<close>\<close>

definition Claude_convertMessages :: "Message list \<Rightarrow> WireMessage list" where
  "Claude_convertMessages messages =
     map to_wire (filter (\<lambda>msg. role msg \<noteq> System) messages)"

text \<open>The argument of \<^verbatim>\<open>this.client.messages.create\<close> in \<^verbatim>\<open>chat\<close>.\<close>

record ClaudeRequest =
  q_model :: string
  q_max_tokens :: number
  q_temperature :: number
  q_system :: "string option"
  q_messages :: "WireMessage list"

definition Claude_chat_request :: "ModelProvider \<Rightarrow> Message list \<Rightarrow> string option \<Rightarrow> ClaudeRequest" where
  "Claude_chat_request p messages systemPrompt =
     (let anthropicMessages = Claude_convertMessages messages
      in \<lparr> q_model = p_model p,
           q_max_tokens = p_maxTokens p,
           q_temperature = p_temperature p,
           q_system = systemPrompt,
           q_messages = anthropicMessages \<rparr>)"

subsection \<open>DeepSeekProvider (src/providers/deepseek.ts)\<close>

definition DeepSeek_getDefaultModel :: string where
  "DeepSeek_getDefaultModel = ''deepseek-chat''"

definition DeepSeek_getProviderName :: string where
  "DeepSeek_getProviderName = ''DeepSeek''"

definition DeepSeekProvider_new :: "ModelConfig \<Rightarrow> ModelProvider" where
  "DeepSeekProvider_new config =
     (ModelProvider_new DeepSeek_getDefaultModel config)
       \<lparr> p_baseURL := Some (string_or (baseURL config) ''https://api.deepseek.com/v1'') \<rparr>"

text \<open>
  \<^verbatim>\<open>if (systemPrompt) result.push({role: 'system', ...}); messages.forEach(...)\<close>: the
  test is on truthiness, so the empty string is treated like an absent prompt.
\<close>

definition DeepSeek_convertMessages :: "Message list \<Rightarrow> string option \<Rightarrow> WireMessage list" where
  "DeepSeek_convertMessages messages systemPrompt =
     (if truthy_string systemPrompt
      then [\<lparr> w_role = ''system'', w_content = the systemPrompt \<rparr>]
      else [])
     @ map to_wire messages"

subsection \<open>DeepSeekProvider.streamChat: decoding the event stream\<close>

text \<open>
  The value \<^verbatim>\<open>JSON.parse\<close> returns. The pairs of a \<open>JObject\<close> are the object's own
  properties.
\<close>

datatype json =
    JNull
  | JBool bool
  | JNumber number
  | JString string
  | JArray "json list"
  | JObject "(string \<times> json) list"

text \<open>
  \<^verbatim>\<open>JSON.parse\<close> is a library function: the decoder takes it as a parameter, a function
  that returns the parsed value, or \<^term>\<open>None\<close> where \<^verbatim>\<open>JSON.parse\<close> throws a SyntaxError.
\<close>

type_synonym json_parse = "string \<Rightarrow> json option"

text \<open>
  Property reads, on a value that is neither \<^verbatim>\<open>null\<close> nor \<^verbatim>\<open>undefined\<close>; the result
  \<^term>\<open>None\<close> is \<^verbatim>\<open>undefined\<close>. \<open>get_named\<close> is \<^verbatim>\<open>v.name\<close> for the three names the
  decoder reads (\<^verbatim>\<open>choices\<close>, \<^verbatim>\<open>delta\<close>, \<^verbatim>\<open>content\<close>), which only an object can
  have; \<open>get_index0\<close> is \<^verbatim>\<open>v[0]\<close>.
\<close>

fun get_named :: "string \<Rightarrow> json \<Rightarrow> json option" where
  "get_named name (JObject kvs) = map_of kvs name"
| "get_named name v = None"

fun get_index0 :: "json \<Rightarrow> json option" where
  "get_index0 (JArray xs) = (case xs of [] \<Rightarrow> None | x # rest \<Rightarrow> Some x)"
| "get_index0 (JObject kvs) = map_of kvs ''0''"
| "get_index0 (JString s) = (case s of [] \<Rightarrow> None | c # rest \<Rightarrow> Some (JString [c]))"
| "get_index0 v = None"

fun nullish :: "json option \<Rightarrow> bool" where
  "nullish None = True"
| "nullish (Some JNull) = True"
| "nullish (Some v) = False"

fun truthy :: "json option \<Rightarrow> bool" where
  "truthy None = False"
| "truthy (Some JNull) = False"
| "truthy (Some (JBool b)) = b"
| "truthy (Some (JNumber n)) = truthy_number (Some n)"
| "truthy (Some (JString s)) = truthy_string (Some s)"
| "truthy (Some (JArray xs)) = True"
| "truthy (Some (JObject kvs)) = True"

datatype thrown = SyntaxError | TypeError

text \<open>
  \<^verbatim>\<open>json.choices[0]?.delta?.content\<close>: reading \<^verbatim>\<open>choices\<close> of \<^verbatim>\<open>null\<close>, or index 0
  of a \<^verbatim>\<open>choices\<close> that is \<^verbatim>\<open>null\<close> or \<^verbatim>\<open>undefined\<close>, throws a TypeError; each
  \<^verbatim>\<open>?.\<close> gives \<^verbatim>\<open>undefined\<close> on a \<^verbatim>\<open>null\<close> or \<^verbatim>\<open>undefined\<close> base.
\<close>

definition delta_content :: "json \<Rightarrow> thrown + json option" where
  "delta_content json =
     (if nullish (Some json) then Inl TypeError
      else let choices = get_named ''choices'' json in
        if nullish choices then Inl TypeError
        else let choice0 = get_index0 (the choices);
                 delta = (if nullish choice0 then None else get_named ''delta'' (the choice0));
                 c = (if nullish delta then None else get_named ''content'' (the delta))
             in Inr c)"

definition newline :: char where
  "newline = CHR 0x0A"

text \<open>\<^verbatim>\<open>s.split('\n')\<close>: always at least one piece.\<close>

fun split_newline :: "string \<Rightarrow> string list" where
  "split_newline [] = [[]]"
| "split_newline (c # cs) =
     (if c = newline then [] # split_newline cs
      else (case split_newline cs of
              [] \<Rightarrow> [[c]]
            | piece # pieces \<Rightarrow> (c # piece) # pieces))"

text \<open>
  The white space and line terminators \<^verbatim>\<open>String.prototype.trim\<close> removes, among the code
  units below 256: TAB, LF, VT, FF, CR, SP and NBSP.
\<close>

definition is_whitespace :: "char \<Rightarrow> bool" where
  "is_whitespace c = List.member
     [CHR 0x09, CHR 0x0A, CHR 0x0B, CHR 0x0C, CHR 0x0D, CHR 0x20, CHR 0xA0] c"

definition trim :: "string \<Rightarrow> string" where
  "trim s = rev (dropWhile is_whitespace (rev (dropWhile is_whitespace s)))"

definition startsWith :: "string \<Rightarrow> string \<Rightarrow> bool" where
  "startsWith s p = (take (length p) s = p)"

text \<open>
  The body of \<^verbatim>\<open>for (const line of lines)\<close>: what one line makes the generator yield.
  Both the SyntaxError of \<^verbatim>\<open>JSON.parse\<close> and the TypeError of the property reads are
  caught and ignored.
\<close>

definition line_yields :: "json_parse \<Rightarrow> string \<Rightarrow> json list" where
  "line_yields parse line =
     (let trimmed = trim line in
      if trimmed = [] then []
      else if trimmed = ''data: [DONE]'' then []
      else if startsWith trimmed ''data: '' then
        (case parse (drop 6 trimmed) of
           None \<Rightarrow> []
         | Some json \<Rightarrow>
             (case delta_content json of
                Inl e \<Rightarrow> []
              | Inr delta \<Rightarrow> if truthy delta then [the delta] else []))
      else [])"

text \<open>
  What successive calls of \<^verbatim>\<open>reader.read()\<close> give: \<open>Value v\<close> for
  \<^verbatim>\<open>{done: false, value}\<close>, with \<open>v\<close> the text \<^verbatim>\<open>decoder.decode(value, {stream: true})\<close>
  makes of the bytes, and \<open>Rejected t\<close> for a read that throws: \<open>t = Some msg\<close> when the
  thrown value is an \<^verbatim>\<open>Error\<close> with message \<open>msg\<close>, \<open>t = None\<close> when it is any other
  value. The end of the list is \<^verbatim>\<open>{done: true}\<close>.
\<close>

datatype read_result = Value string | Rejected "string option"

text \<open>
  The \<^verbatim>\<open>while (true)\<close> loop inside its \<^verbatim>\<open>try\<close>, from a given carry-over \<^verbatim>\<open>buffer\<close>.
  What a read throws leaves the loop and is caught by the enclosing \<^verbatim>\<open>catch\<close>, which
  throws a new \<^verbatim>\<open>Error\<close> in its place: the prefix followed by
  \<^verbatim>\<open>error instanceof Error ? error.message : ...\<close>. The fragments yielded before stay
  yielded.
\<close>

fun read_loop :: "json_parse \<Rightarrow> string \<Rightarrow> read_result list \<Rightarrow> json generated" where
  "read_loop parse buffer [] = ([], None)"
| "read_loop parse buffer (Rejected t # reads) = ([], Some (StreamError t))"
| "read_loop parse buffer (Value v # reads) =
     (let buffer1 = buffer @ v;
          lines = split_newline buffer1;
          popped = (if lines = [] then None else Some (last lines));
          lines1 = butlast lines;
          buffer2 = string_or popped [];
          rest = read_loop parse buffer2 reads
      in (concat (map (line_yields parse) lines1) @ fst rest, snd rest))"

text \<open>The decoder as \<^verbatim>\<open>streamChat\<close> starts it: \<^verbatim>\<open>let buffer = ''\<close>.\<close>

definition DeepSeek_streamChat_decode :: "json_parse \<Rightarrow> read_result list \<Rightarrow> json generated" where
  "DeepSeek_streamChat_decode parse reads = read_loop parse [] reads"

section \<open>NovelAgent (src/agent.ts)\<close>

text \<open>
  The provider is fixed at construction; its \<^verbatim>\<open>chat\<close> is a parameter of the operations
  that call it. The constructor's argument is the text \<^verbatim>\<open>buildSystemPrompt()\<close> returns.
\<close>

record NovelAgent =
  conversationHistory :: "Message list"
  systemPrompt :: string

definition NovelAgent_new :: "string \<Rightarrow> NovelAgent" where
  "NovelAgent_new prompt = \<lparr> conversationHistory = [], systemPrompt = prompt \<rparr>"

text \<open>
  \<^verbatim>\<open>chat(userMessage)\<close>: the new state and what the call returns (\<open>Inr\<close>) or throws
  (\<open>Inl\<close>; the \<^verbatim>\<open>catch\<close> logs and rethrows the same error).
\<close>

definition chat :: "provider_chat \<Rightarrow> NovelAgent \<Rightarrow> string \<Rightarrow> NovelAgent \<times> (error + string)" where
  "chat provider a userMessage =
     (let a1 = a\<lparr> conversationHistory :=
                   conversationHistory a @ [\<lparr> role = User, content = userMessage \<rparr>] \<rparr>
      in case provider (conversationHistory a1) (Some (systemPrompt a1)) of
           Inr response \<Rightarrow>
             (a1\<lparr> conversationHistory :=
                   conversationHistory a1 @ [\<lparr> role = Assistant, content = r_content response \<rparr>] \<rparr>,
              Inr (r_content response))
         | Inl e \<Rightarrow> (a1, Inl e))"

definition clearHistory :: "NovelAgent \<Rightarrow> NovelAgent" where
  "clearHistory a = a\<lparr> conversationHistory := [] \<rparr>"

definition getHistory :: "NovelAgent \<Rightarrow> Message list" where
  "getHistory a = conversationHistory a"

text \<open>
  A sequence of calls of \<^verbatim>\<open>chat\<close> on one agent, one per text, each awaited before the
  next: the final state and what each call returned or threw.
\<close>

fun chat_calls :: "provider_chat \<Rightarrow> NovelAgent \<Rightarrow> string list \<Rightarrow> NovelAgent \<times> (error + string) list" where
  "chat_calls provider a [] = (a, [])"
| "chat_calls provider a (t # ts) =
     (let r = chat provider a t;
          rs = chat_calls provider (fst r) ts
      in (fst rs, snd r # snd rs))"

section \<open>Notions used to state the properties\<close>

text \<open>The lines of a text that a newline terminates: all pieces but the last.\<close>

definition complete_lines :: "string \<Rightarrow> string list" where
  "complete_lines s = butlast (split_newline s)"

text \<open>One successful turn as it is recorded: the user's text, then the assistant's reply.\<close>

definition exchange :: "string \<Rightarrow> string \<Rightarrow> Message list" where
  "exchange t c = [\<lparr> role = User, content = t \<rparr>, \<lparr> role = Assistant, content = c \<rparr>]"

subsection \<open>Example inputs\<close>

definition hi_line :: string where
  \<open>hi_line = ''data: {"choices":[{"delta":{"content":"Hi"}}]}''\<close>

definition more_line :: string where
  \<open>more_line = ''data: {"choices":[{"delta":{"content":"!"}}]}''\<close>

definition malformed_line :: string where
  \<open>malformed_line = ''data: {"choices":[{"delta":''\<close>

definition done_line :: string where
  \<open>done_line = ''data: [DONE]''\<close>

text \<open>
  What \<^verbatim>\<open>JSON.parse\<close> returns on the payloads of the example lines: the two objects, and
  a SyntaxError on the truncated payload of \<open>malformed_line\<close>. The examples apply it to no
  other text.
\<close>

definition example_parse :: json_parse where
  \<open>example_parse s =
     (if s = ''{"choices":[{"delta":{"content":"Hi"}}]}''
      then Some (JObject [(''choices'',
             JArray [JObject [(''delta'', JObject [(''content'', JString ''Hi'')])]])])
      else if s = ''{"choices":[{"delta":{"content":"!"}}]}''
      then Some (JObject [(''choices'',
             JArray [JObject [(''delta'', JObject [(''content'', JString ''!'')])]])])
      else None)\<close>

text \<open>A provider whose \<^verbatim>\<open>chat\<close> answers with the text of the last message it is given.\<close>

definition echo_provider :: provider_chat where
  "echo_provider messages prompt =
     Inr \<lparr> r_content = (case rev messages of [] \<Rightarrow> [] | m # ms \<Rightarrow> content m),
           r_model = ''echo'', r_usage = None \<rparr>"

text \<open>A provider whose \<^verbatim>\<open>chat\<close> always rejects.\<close>

definition failing_provider :: provider_chat where
  "failing_provider messages prompt = Inl (Error ''unreachable'')"

section \<open>Lemmas on splitting and on the read loop\<close>

lemma split_newline_not_Nil: "split_newline s \<noteq> []"
  by (induction s) (auto split: list.splits)

lemma split_newline_no_newline: "newline \<notin> set s \<Longrightarrow> split_newline s = [s]"
  by (induction s) auto

lemma split_newline_append_newline:
  "split_newline (s @ newline # t) = split_newline s @ split_newline t"
  by (induction s) (auto simp: split_newline_not_Nil split: list.splits)

lemma last_split_newline: "newline \<notin> set (last (split_newline s))"
proof (induction s)
  case Nil
  show ?case by simp
next
  case (Cons c cs)
  obtain l ls where sp: "split_newline cs = l # ls"
    using split_newline_not_Nil [of cs] by (cases "split_newline cs") auto
  with Cons show ?case by (cases ls) auto
qed

lemma split_newline_append:
  "split_newline (s @ t) = butlast (split_newline s) @ split_newline (last (split_newline s) @ t)"
proof (induction s)
  case Nil
  show ?case by simp
next
  case (Cons c cs)
  show ?case
  proof (cases "c = newline")
    case True
    with Cons show ?thesis by (simp add: split_newline_not_Nil)
  next
    case False
    obtain l ls where sp: "split_newline cs = l # ls"
      using split_newline_not_Nil [of cs] by (cases "split_newline cs") auto
    show ?thesis
    proof (cases ls)
      case Nil
      with False Cons sp show ?thesis by simp
    next
      case (Cons l2 ls2)
      with False Cons.IH sp show ?thesis by simp
    qed
  qed
qed

text \<open>
  The loop invariant: the carry-over never holds a newline, and what the loop yields from
  there is what the complete lines of the carry-over followed by the remaining text yield.
\<close>

lemma read_loop_values:
  "newline \<notin> set buffer \<Longrightarrow>
   read_loop parse buffer (map Value cs) =
     (concat (map (line_yields parse) (complete_lines (buffer @ concat cs))), None)"
proof (induction cs arbitrary: buffer)
  case Nil
  then show ?case by (simp add: complete_lines_def split_newline_no_newline)
next
  case (Cons c cs)
  let ?lines = "split_newline (buffer @ c)"
  have b2: "string_or (Some (last ?lines)) [] = last ?lines"
    by (simp add: string_or_def)
  have nn: "newline \<notin> set (last ?lines)" by (rule last_split_newline)
  have "split_newline (buffer @ c @ concat cs) =
        butlast ?lines @ split_newline (last ?lines @ concat cs)"
    using split_newline_append [of "buffer @ c" "concat cs"] by simp
  then have cl: "complete_lines (buffer @ c @ concat cs) =
        butlast ?lines @ complete_lines (last ?lines @ concat cs)"
    by (simp add: complete_lines_def butlast_append split_newline_not_Nil)
  show ?case
    using Cons.IH [OF nn] b2 cl
    by (simp add: Let_def split_newline_not_Nil)
qed

lemma decode_values:
  "DeepSeek_streamChat_decode parse (map Value cs) =
     (concat (map (line_yields parse) (complete_lines (concat cs))), None)"
  using read_loop_values [of "[]" parse cs] by (simp add: DeepSeek_streamChat_decode_def)

lemma complete_lines_Nil: "complete_lines [] = []"
  by (simp add: complete_lines_def)

lemma complete_lines_no_newline: "newline \<notin> set s \<Longrightarrow> complete_lines s = []"
  by (simp add: complete_lines_def split_newline_no_newline)

lemma complete_lines_newline:
  "complete_lines (s @ newline # t) = split_newline s @ complete_lines t"
  by (simp add: complete_lines_def split_newline_append_newline butlast_append split_newline_not_Nil)

lemma complete_lines_join:
  assumes "A = [] \<or> last A = newline"
  shows "complete_lines (A @ B) = complete_lines A @ complete_lines B"
proof (cases "A = []")
  case True
  then show ?thesis by (simp add: complete_lines_Nil)
next
  case False
  with assms have "A = butlast A @ [newline]"
    using append_butlast_last_id [of A] by simp
  then obtain A' where A: "A = A' @ [newline]" ..
  have "complete_lines (A' @ newline # B) = split_newline A' @ complete_lines B"
    by (rule complete_lines_newline)
  moreover have "complete_lines (A' @ newline # []) = split_newline A'"
    using complete_lines_newline [of A' "[]"] by (simp add: complete_lines_Nil)
  ultimately show ?thesis by (simp add: A)
qed

lemma complete_lines_line:
  assumes "A = [] \<or> last A = newline" and "newline \<notin> set l"
  shows "complete_lines (A @ l @ newline # B) = complete_lines A @ l # complete_lines B"
  using complete_lines_join [OF assms(1), of "l @ newline # B"] complete_lines_newline [of l B]
  by (simp add: split_newline_no_newline assms(2))

lemma complete_lines_tail:
  assumes "A = [] \<or> last A = newline" and "newline \<notin> set tail"
  shows "complete_lines (A @ tail) = complete_lines A"
  using complete_lines_join [OF assms(1), of tail] complete_lines_no_newline [OF assms(2)]
  by simp

text \<open>Removing a line that yields nothing does not change what a stream yields.\<close>

lemma decode_silent_line:
  assumes "A = [] \<or> last A = newline" and "newline \<notin> set l"
    and "line_yields parse l = []"
    and "concat cs = A @ l @ newline # B" and "concat cs' = A @ B"
  shows "DeepSeek_streamChat_decode parse (map Value cs) =
         DeepSeek_streamChat_decode parse (map Value cs')"
proof -
  have "complete_lines (concat cs) = complete_lines A @ l # complete_lines B"
    using complete_lines_line [OF assms(1,2), of B] assms(4) by simp
  moreover have "complete_lines (concat cs') = complete_lines A @ complete_lines B"
    using complete_lines_join [OF assms(1), of B] assms(5) by simp
  ultimately show ?thesis
    using assms(3) by (simp add: decode_values)
qed

section \<open>Lemmas on sequences of chat calls\<close>

lemma chat_ok:
  "chat provider a t = (a1, Inr c) \<Longrightarrow>
     (\<exists>response. provider (conversationHistory a @ [\<lparr> role = User, content = t \<rparr>])
                    (Some (systemPrompt a)) = Inr response \<and> r_content response = c) \<and>
     conversationHistory a1 = conversationHistory a @ exchange t c \<and>
     systemPrompt a1 = systemPrompt a"
  by (auto simp: chat_def Let_def exchange_def split: sum.splits)

lemma chat_calls_ok:
  "chat_calls provider a ts = (a', map Inr cs) \<Longrightarrow>
     conversationHistory a' = conversationHistory a @ concat (map2 exchange ts cs) \<and>
     systemPrompt a' = systemPrompt a \<and> length cs = length ts"
proof (induction ts arbitrary: a cs)
  case Nil
  then show ?case by simp
next
  case (Cons t ts)
  from Cons.prems obtain c cs' where cs: "cs = c # cs'"
    by (cases cs) (auto simp: Let_def)
  obtain a1 r where step: "chat provider a t = (a1, r)" by (cases "chat provider a t")
  from Cons.prems cs step have r: "r = Inr c" and rest: "chat_calls provider a1 ts = (a', map Inr cs')"
    by (auto simp: Let_def prod_eq_iff)
  from chat_ok [of provider a t a1 c] step r
  have h1: "conversationHistory a1 = conversationHistory a @ exchange t c"
    and s1: "systemPrompt a1 = systemPrompt a" by auto
  from Cons.IH [OF rest] h1 s1 cs show ?case by simp
qed

lemma chat_calls_provider:
  "chat_calls provider a ts = (a', map Inr cs) \<Longrightarrow> i < length ts \<Longrightarrow>
     \<exists>response. provider (take (length (conversationHistory a) + 2 * i + 1) (conversationHistory a'))
                   (Some (systemPrompt a)) = Inr response \<and> r_content response = cs ! i"
proof (induction ts arbitrary: a cs i)
  case Nil
  then show ?case by simp
next
  case (Cons t ts)
  from Cons.prems obtain c cs' where cs: "cs = c # cs'"
    by (cases cs) (auto simp: Let_def)
  obtain a1 r where step: "chat provider a t = (a1, r)" by (cases "chat provider a t")
  from Cons.prems cs step have r: "r = Inr c" and rest: "chat_calls provider a1 ts = (a', map Inr cs')"
    by (auto simp: Let_def prod_eq_iff)
  from chat_ok [of provider a t a1 c] step r
  obtain response where p: "provider (conversationHistory a @ [\<lparr> role = User, content = t \<rparr>])
                    (Some (systemPrompt a)) = Inr response" "r_content response = c"
    and h1: "conversationHistory a1 = conversationHistory a @ exchange t c"
    and s1: "systemPrompt a1 = systemPrompt a" by auto
  from chat_calls_ok [OF rest] h1
  have h': "conversationHistory a' = conversationHistory a @ exchange t c @ concat (map2 exchange ts cs')"
    by simp
  show ?case
  proof (cases i)
    case 0
    with p h' cs show ?thesis by (simp add: exchange_def)
  next
    case (Suc j)
    with Cons.prems have "j < length ts" by simp
    from Cons.IH [OF rest this] h1 s1 Suc cs show ?thesis
      by (simp add: exchange_def)
  qed
qed

lemma exchanges_nth:
  "length cs = length ts \<Longrightarrow> i < length ts \<Longrightarrow>
     concat (map2 exchange ts cs) ! (2 * i) = \<lparr> role = User, content = ts ! i \<rparr> \<and>
     concat (map2 exchange ts cs) ! (2 * i + 1) = \<lparr> role = Assistant, content = cs ! i \<rparr>"
proof (induction ts arbitrary: cs i)
  case Nil
  then show ?case by simp
next
  case (Cons t ts)
  then obtain c cs' where cs: "cs = c # cs'" by (cases cs) auto
  show ?case
  proof (cases i)
    case 0
    with cs show ?thesis by (simp add: exchange_def)
  next
    case (Suc j)
    with Cons.prems cs have "length cs' = length ts" "j < length ts" by auto
    from Cons.IH [OF this] Suc cs show ?thesis by (simp add: exchange_def)
  qed
qed

lemma length_exchanges:
  "length cs = length ts \<Longrightarrow> length (concat (map2 exchange ts cs)) = 2 * length ts"
proof (induction ts arbitrary: cs)
  case Nil
  then show ?case by simp
next
  case (Cons t ts)
  then obtain c cs' where cs: "cs = c # cs'" by (cases cs) auto
  with Cons show ?case by (simp add: exchange_def)
qed

section \<open>The conversation session\<close>

text \<open>
  Claim C1. After any sequence of calls of \<^verbatim>\<open>chat\<close> on a new agent that all succeed,
  \<^verbatim>\<open>getHistory\<close> has twice as many entries as there were calls: for the \<open>i\<close>-th call, the
  entry at \<open>2 i\<close> is the user's text and the entry at \<open>2 i + 1\<close> is an assistant message
  whose content is the reply, which is the content of the response the provider gave on
  the history up to that user entry.
\<close>

theorem chat_calls_history:
  assumes "chat_calls provider (NovelAgent_new prompt) texts = (a', map Inr replies)"
  shows "length (getHistory a') = 2 * length texts \<and>
         getHistory a' = concat (map2 exchange texts replies) \<and>
         (\<forall>i < length texts.
            getHistory a' ! (2 * i) = \<lparr> role = User, content = texts ! i \<rparr> \<and>
            getHistory a' ! (2 * i + 1) = \<lparr> role = Assistant, content = replies ! i \<rparr> \<and>
            (\<exists>response. provider (take (2 * i + 1) (getHistory a')) (Some prompt) = Inr response \<and>
                         r_content response = replies ! i))"
proof -
  from chat_calls_ok [OF assms]
  have h: "getHistory a' = concat (map2 exchange texts replies)"
    and len: "length replies = length texts"
    by (simp_all add: getHistory_def NovelAgent_new_def)
  have "length (getHistory a') = 2 * length texts"
    using h length_exchanges [OF len] by simp
  moreover have "\<forall>i < length texts.
      getHistory a' ! (2 * i) = \<lparr> role = User, content = texts ! i \<rparr> \<and>
      getHistory a' ! (2 * i + 1) = \<lparr> role = Assistant, content = replies ! i \<rparr> \<and>
      (\<exists>response. provider (take (2 * i + 1) (getHistory a')) (Some prompt) = Inr response \<and>
                   r_content response = replies ! i)"
  proof (intro allI impI)
    fix i assume i: "i < length texts"
    from chat_calls_provider [OF assms i]
    have "\<exists>response. provider (take (2 * i + 1) (getHistory a')) (Some prompt) = Inr response \<and>
                   r_content response = replies ! i"
      by (simp add: getHistory_def NovelAgent_new_def)
    with exchanges_nth [OF len i] h
    show "getHistory a' ! (2 * i) = \<lparr> role = User, content = texts ! i \<rparr> \<and>
      getHistory a' ! (2 * i + 1) = \<lparr> role = Assistant, content = replies ! i \<rparr> \<and>
      (\<exists>response. provider (take (2 * i + 1) (getHistory a')) (Some prompt) = Inr response \<and>
                   r_content response = replies ! i)"
      by simp
  qed
  ultimately show ?thesis using h by simp
qed

theorem chat_calls_history_witness:
  "chat_calls echo_provider (NovelAgent_new ''be brief'') [''one'', ''two''] =
     (\<lparr> conversationHistory =
          [\<lparr> role = User, content = ''one'' \<rparr>, \<lparr> role = Assistant, content = ''one'' \<rparr>,
           \<lparr> role = User, content = ''two'' \<rparr>, \<lparr> role = Assistant, content = ''two'' \<rparr>],
        systemPrompt = ''be brief'' \<rparr>,
      map Inr [''one'', ''two'']) \<and>
   length (getHistory \<lparr> conversationHistory =
          [\<lparr> role = User, content = ''one'' \<rparr>, \<lparr> role = Assistant, content = ''one'' \<rparr>,
           \<lparr> role = User, content = ''two'' \<rparr>, \<lparr> role = Assistant, content = ''two'' \<rparr>],
        systemPrompt = ''be brief'' \<rparr>) = 2 * length [''one'', ''two'']"
proof -
  have run: "chat_calls echo_provider (NovelAgent_new ''be brief'') [''one'', ''two''] =
     (\<lparr> conversationHistory =
          [\<lparr> role = User, content = ''one'' \<rparr>, \<lparr> role = Assistant, content = ''one'' \<rparr>,
           \<lparr> role = User, content = ''two'' \<rparr>, \<lparr> role = Assistant, content = ''two'' \<rparr>],
        systemPrompt = ''be brief'' \<rparr>,
      map Inr [''one'', ''two''])"
    by (simp add: chat_def echo_provider_def NovelAgent_new_def Let_def)
  from chat_calls_history
         [of echo_provider "''be brief''" "[''one'', ''two'']" _ "[''one'', ''two'']", OF run,
          THEN conjunct1] run
  show ?thesis by (rule_tac conjI)
qed

text \<open>
  Claim C4. When the provider's \<^verbatim>\<open>chat\<close> rejects, the agent's \<^verbatim>\<open>chat\<close> throws that
  same error, and the history is the prior history with the user's message appended and
  nothing else: no assistant message, no rollback.
\<close>

theorem chat_failure_keeps_user_message:
  assumes "provider (conversationHistory a @ [\<lparr> role = User, content = t \<rparr>])
             (Some (systemPrompt a)) = Inl e"
  shows "snd (chat provider a t) = Inl e \<and>
         getHistory (fst (chat provider a t)) = getHistory a @ [\<lparr> role = User, content = t \<rparr>] \<and>
         systemPrompt (fst (chat provider a t)) = systemPrompt a"
  using assms by (simp add: chat_def Let_def getHistory_def)

theorem chat_failure_keeps_user_message_witness:
  "failing_provider (conversationHistory (NovelAgent_new ''be brief'') @ [\<lparr> role = User, content = ''one'' \<rparr>])
     (Some (systemPrompt (NovelAgent_new ''be brief''))) = Inl (Error ''unreachable'') \<and>
   snd (chat failing_provider (NovelAgent_new ''be brief'') ''one'') = Inl (Error ''unreachable'') \<and>
   getHistory (fst (chat failing_provider (NovelAgent_new ''be brief'') ''one'')) =
     [\<lparr> role = User, content = ''one'' \<rparr>]"
proof -
  have fails: "failing_provider
      (conversationHistory (NovelAgent_new ''be brief'') @ [\<lparr> role = User, content = ''one'' \<rparr>])
      (Some (systemPrompt (NovelAgent_new ''be brief''))) = Inl (Error ''unreachable'')"
    by (simp add: failing_provider_def)
  from chat_failure_keeps_user_message
         [of failing_provider "NovelAgent_new ''be brief''" "''one''" "Error ''unreachable''"] fails
  show ?thesis
    by (simp add: getHistory_def NovelAgent_new_def)
qed

section \<open>Request building by the adapters\<close>

text \<open>What \<open>to_wire\<close> sends for a message, field by field.\<close>

lemma to_wire_fields:
  "to_wire m =
     \<lparr> w_role = (case role m of User \<Rightarrow> ''user'' | Assistant \<Rightarrow> ''assistant'' | System \<Rightarrow> ''system''),
       w_content = content m \<rparr>"
  by (cases "role m") (simp_all add: to_wire_def)

lemma to_wire_kept:
  "role m \<noteq> System \<Longrightarrow>
   to_wire m = \<lparr> w_role = (if role m = User then ''user'' else ''assistant''), w_content = content m \<rparr>"
  by (cases "role m") (simp_all add: to_wire_def)

lemma to_wire_not_system: "role m \<noteq> System \<Longrightarrow> w_role (to_wire m) \<noteq> ''system''"
  by (cases "role m") (simp_all add: to_wire_def)

lemma Claude_convertMessages_source:
  "w \<in> set (Claude_convertMessages messages) \<Longrightarrow> \<exists>m. w = to_wire m \<and> role m \<noteq> System"
  by (auto simp: Claude_convertMessages_def)

lemma not_in_map: "(\<And>w. w \<in> set xs \<Longrightarrow> f w \<noteq> x) \<Longrightarrow> x \<notin> set (map f xs)"
  by auto

lemma Claude_convertMessages_roles:
  "''system'' \<notin> set (map w_role (Claude_convertMessages messages))"
proof (rule not_in_map)
  fix w assume "w \<in> set (Claude_convertMessages messages)"
  then obtain m where "w = to_wire m" and "role m \<noteq> System"
    using Claude_convertMessages_source by blast
  then show "w_role w \<noteq> ''system''" by (simp add: to_wire_not_system)
qed

lemma Claude_convertMessages_fields:
  "Claude_convertMessages messages =
     map (\<lambda>msg. \<lparr> w_role = (if role msg = User then ''user'' else ''assistant''),
                  w_content = content msg \<rparr>)
         (filter (\<lambda>msg. role msg \<noteq> System) messages)"
  unfolding Claude_convertMessages_def
  by (rule map_cong) (simp_all add: to_wire_kept)

text \<open>
  Claim C5. In the request the Claude adapter builds, the message array is made of the
  entries of the input history whose role is not \<^verbatim>\<open>system\<close>, in their order: a user entry
  is sent with role \<^verbatim>\<open>user\<close>, an assistant entry with role \<^verbatim>\<open>assistant\<close>, each with its own
  content. No message of the array has the role \<^verbatim>\<open>system\<close>, and the system instruction is
  the request's \<^verbatim>\<open>system\<close> field.
\<close>

theorem Claude_request_has_no_system_message:
  "q_messages (Claude_chat_request p messages prompt) =
     map (\<lambda>msg. \<lparr> w_role = (if role msg = User then ''user'' else ''assistant''),
                  w_content = content msg \<rparr>)
         (filter (\<lambda>msg. role msg \<noteq> System) messages) \<and>
   ''system'' \<notin> set (map w_role (q_messages (Claude_chat_request p messages prompt))) \<and>
   q_system (Claude_chat_request p messages prompt) = prompt"
proof -
  have m: "q_messages (Claude_chat_request p messages prompt) = Claude_convertMessages messages"
    by (simp add: Claude_chat_request_def)
  have s: "q_system (Claude_chat_request p messages prompt) = prompt"
    by (simp add: Claude_chat_request_def)
  show ?thesis
    unfolding m s
    using Claude_convertMessages_fields [of messages] Claude_convertMessages_roles [of messages]
    by (intro conjI) (assumption | rule refl)+
qed

theorem Claude_request_has_no_system_message_witness:
  "q_messages (Claude_chat_request
     (ClaudeProvider_new
       \<lparr> apiKey = ''key'', model = None, maxTokens = None, temperature = None, baseURL = None \<rparr>)
     [\<lparr> role = User, content = ''one'' \<rparr>, \<lparr> role = System, content = ''be brief'' \<rparr>,
      \<lparr> role = Assistant, content = ''two'' \<rparr>] (Some ''be kind'')) =
     [\<lparr> w_role = ''user'', w_content = ''one'' \<rparr>, \<lparr> w_role = ''assistant'', w_content = ''two'' \<rparr>] \<and>
   q_system (Claude_chat_request
     (ClaudeProvider_new
       \<lparr> apiKey = ''key'', model = None, maxTokens = None, temperature = None, baseURL = None \<rparr>)
     [\<lparr> role = User, content = ''one'' \<rparr>, \<lparr> role = System, content = ''be brief'' \<rparr>,
      \<lparr> role = Assistant, content = ''two'' \<rparr>] (Some ''be kind'')) = Some ''be kind''"
  using Claude_request_has_no_system_message
    [of "ClaudeProvider_new \<lparr> apiKey = ''key'', model = None, maxTokens = None, temperature = None, baseURL = None \<rparr>"
        "[\<lparr> role = User, content = ''one'' \<rparr>, \<lparr> role = System, content = ''be brief'' \<rparr>,
            \<lparr> role = Assistant, content = ''two'' \<rparr>]" "Some ''be kind''"]
  by simp

text \<open>
  Claim C6, as the code has it. The DeepSeek adapter's outbound list is, for a system
  instruction that is not the empty string, one \<^verbatim>\<open>system\<close> message with that content
  followed by one message for each entry of the input history, in order, with the entry's
  own role (\<^verbatim>\<open>user\<close>, \<^verbatim>\<open>assistant\<close> or \<^verbatim>\<open>system\<close>) and its own content; with no
  instruction, or with the empty string as instruction, it is those messages alone.
\<close>

theorem DeepSeek_convertMessages_prompt:
  "(s \<noteq> [] \<longrightarrow>
      DeepSeek_convertMessages messages (Some s) =
        \<lparr> w_role = ''system'', w_content = s \<rparr> #
        map (\<lambda>msg. \<lparr> w_role = (case role msg of User \<Rightarrow> ''user'' | Assistant \<Rightarrow> ''assistant''
                                  | System \<Rightarrow> ''system''),
                     w_content = content msg \<rparr>) messages) \<and>
   DeepSeek_convertMessages messages None =
     map (\<lambda>msg. \<lparr> w_role = (case role msg of User \<Rightarrow> ''user'' | Assistant \<Rightarrow> ''assistant''
                               | System \<Rightarrow> ''system''),
                  w_content = content msg \<rparr>) messages \<and>
   DeepSeek_convertMessages messages (Some []) =
     map (\<lambda>msg. \<lparr> w_role = (case role msg of User \<Rightarrow> ''user'' | Assistant \<Rightarrow> ''assistant''
                               | System \<Rightarrow> ''system''),
                  w_content = content msg \<rparr>) messages"
proof -
  have w: "map to_wire messages =
     map (\<lambda>msg. \<lparr> w_role = (case role msg of User \<Rightarrow> ''user'' | Assistant \<Rightarrow> ''assistant''
                               | System \<Rightarrow> ''system''),
                  w_content = content msg \<rparr>) messages"
    by (rule map_cong) (simp_all add: to_wire_fields)
  have a: "s \<noteq> [] \<Longrightarrow> DeepSeek_convertMessages messages (Some s) =
        \<lparr> w_role = ''system'', w_content = s \<rparr> # map to_wire messages"
    by (simp add: DeepSeek_convertMessages_def)
  have b: "DeepSeek_convertMessages messages None = map to_wire messages"
    by (simp add: DeepSeek_convertMessages_def)
  have c: "DeepSeek_convertMessages messages (Some []) = map to_wire messages"
    by (simp add: DeepSeek_convertMessages_def)
  show ?thesis
    unfolding b c w [symmetric] using a by (intro conjI impI) (assumption | rule refl)+
qed

theorem DeepSeek_convertMessages_prompt_witness:
  "''be brief'' \<noteq> [] \<and>
   DeepSeek_convertMessages
     [\<lparr> role = User, content = ''one'' \<rparr>, \<lparr> role = Assistant, content = ''two'' \<rparr>,
      \<lparr> role = System, content = ''three'' \<rparr>] (Some ''be brief'') =
     [\<lparr> w_role = ''system'', w_content = ''be brief'' \<rparr>,
      \<lparr> w_role = ''user'', w_content = ''one'' \<rparr>,
      \<lparr> w_role = ''assistant'', w_content = ''two'' \<rparr>,
      \<lparr> w_role = ''system'', w_content = ''three'' \<rparr>] \<and>
   DeepSeek_convertMessages
     [\<lparr> role = User, content = ''one'' \<rparr>, \<lparr> role = Assistant, content = ''two'' \<rparr>,
      \<lparr> role = System, content = ''three'' \<rparr>] None =
     [\<lparr> w_role = ''user'', w_content = ''one'' \<rparr>,
      \<lparr> w_role = ''assistant'', w_content = ''two'' \<rparr>,
      \<lparr> w_role = ''system'', w_content = ''three'' \<rparr>]"
  using DeepSeek_convertMessages_prompt
    [of "''be brief''"
        "[\<lparr> role = User, content = ''one'' \<rparr>, \<lparr> role = Assistant, content = ''two'' \<rparr>,
          \<lparr> role = System, content = ''three'' \<rparr>]"]
  by simp

text \<open>
  The claim as the specification states it fails for the empty string: an instruction is
  given, and no \<^verbatim>\<open>system\<close> message is sent.
\<close>

theorem DeepSeek_convertMessages_empty_prompt:
  "DeepSeek_convertMessages [\<lparr> role = User, content = ''one'' \<rparr>] (Some []) =
     [\<lparr> w_role = ''user'', w_content = ''one'' \<rparr>] \<and>
   DeepSeek_convertMessages [\<lparr> role = User, content = ''one'' \<rparr>] (Some []) \<noteq>
     [\<lparr> w_role = ''system'', w_content = [] \<rparr>, \<lparr> w_role = ''user'', w_content = ''one'' \<rparr>]"
  by (simp add: DeepSeek_convertMessages_def to_wire_def)

section \<open>The provider base class\<close>

text \<open>
  Claim C8. Where \<^verbatim>\<open>chat\<close> succeeds with a response, the default \<^verbatim>\<open>streamChat\<close> on the
  same arguments yields one fragment, the response's content, and ends normally; the
  fragments concatenated are that content.
\<close>

theorem streamChat_default_single_fragment:
  assumes "chat_fn messages prompt = Inr response"
  shows "streamChat chat_fn messages prompt = ([r_content response], None) \<and>
         concat (fst (streamChat chat_fn messages prompt)) = r_content response"
  using assms by (simp add: streamChat_def)

theorem streamChat_default_single_fragment_witness:
  "echo_provider [\<lparr> role = User, content = ''one'' \<rparr>] (Some ''be brief'') =
     Inr \<lparr> r_content = ''one'', r_model = ''echo'', r_usage = None \<rparr> \<and>
   streamChat echo_provider [\<lparr> role = User, content = ''one'' \<rparr>] (Some ''be brief'') =
     ([''one''], None)"
proof -
  have ok: "echo_provider [\<lparr> role = User, content = ''one'' \<rparr>] (Some ''be brief'') =
     Inr \<lparr> r_content = ''one'', r_model = ''echo'', r_usage = None \<rparr>"
    by (simp add: echo_provider_def)
  from streamChat_default_single_fragment
         [of echo_provider "[\<lparr> role = User, content = ''one'' \<rparr>]" "Some ''be brief''"
             "\<lparr> r_content = ''one'', r_model = ''echo'', r_usage = None \<rparr>"] ok
  show ?thesis by simp
qed

text \<open>
  Claim C9. A configuration that supplies 0 for \<^verbatim>\<open>maxTokens\<close> or for \<^verbatim>\<open>temperature\<close>
  gives a provider whose \<^verbatim>\<open>getConfig\<close> reports the default (4096, 0.7), exactly as the
  configuration without that field does. This holds for the base constructor with any
  default model and provider name, and so for both adapters.
\<close>

theorem zero_config_reports_default:
  "c_maxTokens (getConfig name (ModelProvider_new dm (config\<lparr> maxTokens := Some (Num 0) \<rparr>))) = Num 4096 \<and>
   c_temperature (getConfig name (ModelProvider_new dm (config\<lparr> temperature := Some (Num 0) \<rparr>))) = Num (7 / 10) \<and>
   getConfig name (ModelProvider_new dm (config\<lparr> maxTokens := Some (Num 0) \<rparr>)) =
     getConfig name (ModelProvider_new dm (config\<lparr> maxTokens := None \<rparr>)) \<and>
   getConfig name (ModelProvider_new dm (config\<lparr> temperature := Some (Num 0) \<rparr>)) =
     getConfig name (ModelProvider_new dm (config\<lparr> temperature := None \<rparr>)) \<and>
   c_maxTokens (getConfig Claude_getProviderName
     (ClaudeProvider_new (config\<lparr> maxTokens := Some (Num 0) \<rparr>))) = Num 4096 \<and>
   c_temperature (getConfig Claude_getProviderName
     (ClaudeProvider_new (config\<lparr> temperature := Some (Num 0) \<rparr>))) = Num (7 / 10) \<and>
   c_maxTokens (getConfig DeepSeek_getProviderName
     (DeepSeekProvider_new (config\<lparr> maxTokens := Some (Num 0) \<rparr>))) = Num 4096 \<and>
   c_temperature (getConfig DeepSeek_getProviderName
     (DeepSeekProvider_new (config\<lparr> temperature := Some (Num 0) \<rparr>))) = Num (7 / 10)"
  by (simp add: getConfig_def ModelProvider_new_def ClaudeProvider_new_def DeepSeekProvider_new_def
      number_or_def)

section \<open>The streaming decoder of the DeepSeek adapter\<close>

lemma decode_single_line:
  assumes "newline \<notin> set l"
  shows "complete_lines (l @ [newline]) = [l]"
  using complete_lines_newline [of l "[]"] assms
  by (simp add: complete_lines_Nil split_newline_no_newline)

text \<open>
  Claim C2. What the decoder yields depends only on the text the reads deliver together,
  not on where it is cut into reads. In particular a line without a newline in it, followed
  by its newline, yields the same whether it comes in one read or cut in two at any place:
  what \<open>line_yields\<close> gives for that line, once.
\<close>

theorem decode_independent_of_reads:
  "(concat cs = concat cs' \<longrightarrow>
      DeepSeek_streamChat_decode parse (map Value cs) =
      DeepSeek_streamChat_decode parse (map Value cs')) \<and>
   (newline \<notin> set (l1 @ l2) \<longrightarrow>
      DeepSeek_streamChat_decode parse [Value l1, Value (l2 @ [newline])] =
        (line_yields parse (l1 @ l2), None) \<and>
      DeepSeek_streamChat_decode parse [Value (l1 @ l2 @ [newline])] =
        (line_yields parse (l1 @ l2), None))"
proof (intro conjI impI)
  assume "concat cs = concat cs'"
  then show "DeepSeek_streamChat_decode parse (map Value cs) =
      DeepSeek_streamChat_decode parse (map Value cs')"
    by (simp add: decode_values)
next
  assume n: "newline \<notin> set (l1 @ l2)"
  have "DeepSeek_streamChat_decode parse (map Value [l1, l2 @ [newline]]) =
        (line_yields parse (l1 @ l2), None)"
    unfolding decode_values using decode_single_line [OF n] by simp
  then show "DeepSeek_streamChat_decode parse [Value l1, Value (l2 @ [newline])] =
        (line_yields parse (l1 @ l2), None)"
    by simp
next
  assume n: "newline \<notin> set (l1 @ l2)"
  have "DeepSeek_streamChat_decode parse (map Value [l1 @ l2 @ [newline]]) =
        (line_yields parse (l1 @ l2), None)"
    unfolding decode_values using decode_single_line [OF n] by simp
  then show "DeepSeek_streamChat_decode parse [Value (l1 @ l2 @ [newline])] =
        (line_yields parse (l1 @ l2), None)"
    by simp
qed

theorem decode_independent_of_reads_witness:
  \<open>concat [''data: {"choi'', ''ces":[{"delta":{"content":"Hi"}}]}'' @ [newline]] =
     concat [hi_line @ [newline]] \<and>
   newline \<notin> set (''data: {"choi'' @ ''ces":[{"delta":{"content":"Hi"}}]}'') \<and>
   DeepSeek_streamChat_decode example_parse
     (map Value [''data: {"choi'', ''ces":[{"delta":{"content":"Hi"}}]}'' @ [newline]]) =
   DeepSeek_streamChat_decode example_parse (map Value [hi_line @ [newline]]) \<and>
   DeepSeek_streamChat_decode example_parse
     [Value ''data: {"choi'', Value (''ces":[{"delta":{"content":"Hi"}}]}'' @ [newline])] =
     ([JString ''Hi''], None)\<close>
proof -
  have same: \<open>concat [''data: {"choi'', ''ces":[{"delta":{"content":"Hi"}}]}'' @ [newline]] =
     concat [hi_line @ [newline]]\<close>
    by (simp add: hi_line_def)
  have n: \<open>newline \<notin> set (''data: {"choi'' @ ''ces":[{"delta":{"content":"Hi"}}]}'')\<close>
    by (simp add: newline_def)
  have y: \<open>line_yields example_parse (''data: {"choi'' @ ''ces":[{"delta":{"content":"Hi"}}]}'') =
     [JString ''Hi'']\<close>
    by code_simp
  note inst = decode_independent_of_reads
    [of \<open>[''data: {"choi'', ''ces":[{"delta":{"content":"Hi"}}]}'' @ [newline]]\<close>
        "[hi_line @ [newline]]" example_parse
        \<open>''data: {"choi''\<close> \<open>''ces":[{"delta":{"content":"Hi"}}]}''\<close>]
  from inst same
  have a: \<open>DeepSeek_streamChat_decode example_parse
     (map Value [''data: {"choi'', ''ces":[{"delta":{"content":"Hi"}}]}'' @ [newline]]) =
   DeepSeek_streamChat_decode example_parse (map Value [hi_line @ [newline]])\<close>
    by (rule_tac mp [OF conjunct1])
  from inst n
  have b: \<open>DeepSeek_streamChat_decode example_parse
     [Value ''data: {"choi'', Value (''ces":[{"delta":{"content":"Hi"}}]}'' @ [newline])] =
     (line_yields example_parse (''data: {"choi'' @ ''ces":[{"delta":{"content":"Hi"}}]}''), None)\<close>
    by (rule_tac conjunct1 [OF mp [OF conjunct2]])
  from same n a b y show ?thesis by (simp only: simp_thms)
qed

text \<open>
  Claim C3, as the code has it. A line that is \<^verbatim>\<open>data: [DONE]\<close> once trimmed yields
  nothing itself and is passed over: the decoder goes on to the lines after it, and the
  stream yields what it yields with that line taken out.
\<close>

theorem done_line_is_skipped:
  assumes "A = [] \<or> last A = newline"
    and "newline \<notin> set d"
    and "trim d = ''data: [DONE]''"
    and "concat cs = A @ d @ newline # B"
    and "concat cs' = A @ B"
  shows "line_yields parse d = [] \<and>
         DeepSeek_streamChat_decode parse (map Value cs) =
         DeepSeek_streamChat_decode parse (map Value cs')"
proof -
  have silent: "line_yields parse d = []"
    using assms(3) by (simp add: line_yields_def)
  from decode_silent_line [OF assms(1,2) silent assms(4,5)] silent
  show ?thesis by simp
qed

theorem done_line_is_skipped_witness:
  "(hi_line @ [newline] = [] \<or> last (hi_line @ [newline]) = newline) \<and>
   newline \<notin> set done_line \<and>
   trim done_line = ''data: [DONE]'' \<and>
   line_yields example_parse done_line = [] \<and>
   DeepSeek_streamChat_decode example_parse
     (map Value [hi_line @ [newline] @ done_line @ newline # more_line @ [newline]]) =
   DeepSeek_streamChat_decode example_parse
     (map Value [(hi_line @ [newline]) @ more_line @ [newline]]) \<and>
   DeepSeek_streamChat_decode example_parse
     (map Value [(hi_line @ [newline]) @ more_line @ [newline]]) =
     ([JString ''Hi'', JString ''!''], None)"
proof -
  have h1: "hi_line @ [newline] = [] \<or> last (hi_line @ [newline]) = newline" by simp
  have h2: "newline \<notin> set done_line" by (simp add: done_line_def newline_def)
  have h3: "trim done_line = ''data: [DONE]''" by code_simp
  have h4: "concat [hi_line @ [newline] @ done_line @ newline # more_line @ [newline]] =
            (hi_line @ [newline]) @ done_line @ newline # (more_line @ [newline])" by simp
  have h5: "concat [(hi_line @ [newline]) @ more_line @ [newline]] =
            (hi_line @ [newline]) @ (more_line @ [newline])" by simp
  have r: "DeepSeek_streamChat_decode example_parse
     (map Value [(hi_line @ [newline]) @ more_line @ [newline]]) =
     ([JString ''Hi'', JString ''!''], None)" by code_simp
  from done_line_is_skipped
         [of "hi_line @ [newline]" done_line
             "[hi_line @ [newline] @ done_line @ newline # more_line @ [newline]]"
             "more_line @ [newline]" "[(hi_line @ [newline]) @ more_line @ [newline]]"
             example_parse,
          OF h1 h2 h3 h4 h5] h1 h2 h3 r
  show ?thesis by (simp only: simp_thms)
qed

text \<open>
  The claim as the specification states it fails: the line after \<^verbatim>\<open>data: [DONE]\<close> still
  yields its fragment.
\<close>

theorem done_line_does_not_end_emission:
  "DeepSeek_streamChat_decode example_parse
     [Value (done_line @ [newline] @ hi_line @ [newline])] = ([JString ''Hi''], None)"
  by code_simp

text \<open>
  Claim C7. A line whose payload after the \<^verbatim>\<open>data: \<close> prefix does not parse yields
  nothing, and the decoder goes on: the stream yields what it yields with that line taken
  out.
\<close>

theorem malformed_line_is_skipped:
  assumes "A = [] \<or> last A = newline"
    and "newline \<notin> set bad"
    and "startsWith (trim bad) ''data: ''"
    and "parse (drop 6 (trim bad)) = None"
    and "concat cs = A @ bad @ newline # B"
    and "concat cs' = A @ B"
  shows "line_yields parse bad = [] \<and>
         DeepSeek_streamChat_decode parse (map Value cs) =
         DeepSeek_streamChat_decode parse (map Value cs')"
proof -
  have silent: "line_yields parse bad = []"
    using assms(4) by (simp add: line_yields_def Let_def)
  from decode_silent_line [OF assms(1,2) silent assms(5,6)] silent
  show ?thesis by simp
qed

theorem malformed_line_is_skipped_witness:
  "(hi_line @ [newline] = [] \<or> last (hi_line @ [newline]) = newline) \<and>
   newline \<notin> set malformed_line \<and>
   startsWith (trim malformed_line) ''data: '' \<and>
   example_parse (drop 6 (trim malformed_line)) = None \<and>
   line_yields example_parse malformed_line = [] \<and>
   DeepSeek_streamChat_decode example_parse
     (map Value [hi_line @ [newline] @ malformed_line, newline # more_line @ [newline]]) =
   DeepSeek_streamChat_decode example_parse
     (map Value [(hi_line @ [newline]) @ more_line @ [newline]]) \<and>
   DeepSeek_streamChat_decode example_parse
     (map Value [hi_line @ [newline] @ malformed_line, newline # more_line @ [newline]]) =
     ([JString ''Hi'', JString ''!''], None)"
proof -
  have h1: "hi_line @ [newline] = [] \<or> last (hi_line @ [newline]) = newline" by simp
  have h2: "newline \<notin> set malformed_line" by (simp add: malformed_line_def newline_def)
  have h3: "startsWith (trim malformed_line) ''data: ''" by code_simp
  have h4: "example_parse (drop 6 (trim malformed_line)) = None" by code_simp
  have h5: "concat [hi_line @ [newline] @ malformed_line, newline # more_line @ [newline]] =
            (hi_line @ [newline]) @ malformed_line @ newline # (more_line @ [newline])" by simp
  have h6: "concat [(hi_line @ [newline]) @ more_line @ [newline]] =
            (hi_line @ [newline]) @ (more_line @ [newline])" by simp
  have r: "DeepSeek_streamChat_decode example_parse
     (map Value [hi_line @ [newline] @ malformed_line, newline # more_line @ [newline]]) =
     ([JString ''Hi'', JString ''!''], None)" by code_simp
  from malformed_line_is_skipped
         [of "hi_line @ [newline]" malformed_line example_parse
             "[hi_line @ [newline] @ malformed_line, newline # more_line @ [newline]]"
             "more_line @ [newline]" "[(hi_line @ [newline]) @ more_line @ [newline]]",
          OF h1 h2 h3 h4 h5 h6] h1 h2 h3 h4 r
  show ?thesis by (simp only: simp_thms)
qed

text \<open>
  Claim C10. Text after the last newline of the stream stays in the carry-over and is
  never given to \<open>line_yields\<close>: a stream that ends in an unterminated line yields what it
  yields without that line, whatever the line holds.
\<close>

theorem unterminated_last_line_is_dropped:
  assumes "A = [] \<or> last A = newline"
    and "newline \<notin> set rest"
    and "concat cs = A @ rest"
  shows "DeepSeek_streamChat_decode parse (map Value cs) =
         DeepSeek_streamChat_decode parse (map Value [A])"
  unfolding decode_values
  using complete_lines_tail [OF assms(1,2)] assms(3) by simp

theorem unterminated_last_line_is_dropped_witness:
  "(hi_line @ [newline] = [] \<or> last (hi_line @ [newline]) = newline) \<and>
   newline \<notin> set more_line \<and>
   line_yields example_parse more_line = [JString ''!''] \<and>
   DeepSeek_streamChat_decode example_parse (map Value [hi_line @ [newline], more_line]) =
   DeepSeek_streamChat_decode example_parse (map Value [hi_line @ [newline]]) \<and>
   DeepSeek_streamChat_decode example_parse (map Value [hi_line @ [newline], more_line]) =
     ([JString ''Hi''], None) \<and>
   DeepSeek_streamChat_decode example_parse (map Value [more_line]) = ([], None)"
proof -
  have h1: "hi_line @ [newline] = [] \<or> last (hi_line @ [newline]) = newline" by simp
  have h2: "newline \<notin> set more_line" by (simp add: more_line_def newline_def)
  have h3: "concat [hi_line @ [newline], more_line] = (hi_line @ [newline]) @ more_line" by simp
  have y: "line_yields example_parse more_line = [JString ''!'']" by code_simp
  have r: "DeepSeek_streamChat_decode example_parse (map Value [hi_line @ [newline], more_line]) =
     ([JString ''Hi''], None)" by code_simp
  have r0: "DeepSeek_streamChat_decode example_parse (map Value [more_line]) = ([], None)"
    by code_simp
  from unterminated_last_line_is_dropped
         [of "hi_line @ [newline]" more_line "[hi_line @ [newline], more_line]" example_parse,
          OF h1 h2 h3] h1 h2 y r r0
  show ?thesis by (simp only: simp_thms)
qed

end
